theory Spec2Isabelle
  imports Main
begin

section \<open>JavaScript strings and arrays\<close>

text \<open>
  A JavaScript string is modelled as a \<^typ>\<open>string\<close>, one \<^typ>\<open>char\<close> per code unit
  (code units 0 to 255). \<open>undefined\<close> is \<open>None\<close>.
\<close>

datatype error =
    TypeError
  | InvalidNpmPath string
  | UnableToFetch string
  | UnableToResolveVersion string
  | ParseError
  | FsError string
  | OutOfFuel

text \<open>\<open>s.startsWith(p)\<close>.\<close>

definition startsWith :: "string \<Rightarrow> string \<Rightarrow> bool" where
  "startsWith s p = (take (length p) s = p)"

text \<open>\<open>s.endsWith(p)\<close>.\<close>

definition endsWith :: "string \<Rightarrow> string \<Rightarrow> bool" where
  "endsWith s p = (length p \<le> length s \<and> drop (length s - length p) s = p)"

text \<open>\<open>s.split(c)\<close> for a one-character separator: never the empty array.\<close>

fun split :: "char \<Rightarrow> string \<Rightarrow> string list" where
  "split c [] = [[]]"
| "split c (x # xs) =
     (if x = c then [] # split c xs
      else (case split c xs of [] \<Rightarrow> [[x]] | p # ps \<Rightarrow> (x # p) # ps))"

text \<open>\<open>parts.shift()\<close>: the removed first element (\<open>undefined\<close> on the empty array) and
  the array that is left.\<close>

definition shift :: "'a list \<Rightarrow> 'a option \<times> 'a list" where
  "shift xs = (case xs of [] \<Rightarrow> (None, []) | x # r \<Rightarrow> (Some x, r))"

text \<open>\<open>parts.join(sep)\<close> on an array of strings.\<close>

fun array_join :: "string \<Rightarrow> string list \<Rightarrow> string" where
  "array_join sep [] = []"
| "array_join sep [p] = p"
| "array_join sep (p # q # ps) = p @ sep @ array_join sep (q # ps)"

text \<open>In \<open>join\<close>, an \<open>undefined\<close> element counts as the empty string.\<close>

definition undefined_as_empty :: "string option \<Rightarrow> string" where
  "undefined_as_empty v = (case v of None \<Rightarrow> [] | Some s \<Rightarrow> s)"

text \<open>\<open>s.indexOf(c, from)\<close>: the first index at or after \<open>from\<close> holding \<open>c\<close>, or -1.\<close>

fun indexOf_at :: "char \<Rightarrow> nat \<Rightarrow> nat \<Rightarrow> string \<Rightarrow> int" where
  "indexOf_at c from i [] = -1"
| "indexOf_at c from i (x # xs) =
     (if from \<le> i \<and> x = c then int i else indexOf_at c from (Suc i) xs)"

definition indexOf :: "char \<Rightarrow> nat \<Rightarrow> string \<Rightarrow> int" where
  "indexOf c from s = indexOf_at c from 0 s"

text \<open>A template literal prints \<open>undefined\<close> by its name.\<close>

definition template :: "string option \<Rightarrow> string" where
  "template v = (case v of None \<Rightarrow> ''undefined'' | Some s \<Rightarrow> s)"

text \<open>Truthiness of an optional string: \<open>undefined\<close> and the empty string are falsy.\<close>

definition truthy :: "string option \<Rightarrow> bool" where
  "truthy v = (case v of None \<Rightarrow> False | Some s \<Rightarrow> s \<noteq> [])"

section \<open>Specifiers\<close>

record NpmSpecifier =
  npm_name :: string
  npm_range :: "string option"
  npm_path :: "string option"

text \<open>
  \<open>parseNpmSpecifier\<close>. The non-null assertions of the source are erased at run time: the
  first \<open>shift\<close> of the unscoped branch would give \<open>undefined\<close> on an empty array, and
  \<open>indexOf\<close> on it would raise a \<open>TypeError\<close>.
\<close>

definition parseNpmSpecifier :: "string \<Rightarrow> error + NpmSpecifier" where
  "parseNpmSpecifier specifier =
     (let parts = split CHR ''/'' specifier;
          (namerange, parts) =
            (if startsWith specifier ''@''
             then (let (a, parts) = shift parts; (b, parts) = shift parts
                   in (Some (array_join ''/'' [undefined_as_empty a, undefined_as_empty b]), parts))
             else shift parts)
      in case namerange of
           None \<Rightarrow> Inl TypeError
         | Some namerange \<Rightarrow>
             (let ranged = indexOf CHR ''@'' 1 namerange
              in Inr \<lparr>npm_name = (if ranged > 0 then take (nat ranged) namerange else namerange),
                      npm_range = (if ranged > 0 then Some (drop (nat ranged + 1) namerange) else None),
                      npm_path = (if length parts > 0 then Some (array_join ''/'' parts) else None)\<rparr>))"

text \<open>\<open>formatNpmSpecifier\<close>: range and path are printed when truthy.\<close>

definition formatNpmSpecifier :: "NpmSpecifier \<Rightarrow> string" where
  "formatNpmSpecifier s =
     npm_name s @ (if truthy (npm_range s) then ''@'' @ template (npm_range s) else '''')
            @ (if truthy (npm_path s) then ''/'' @ template (npm_path s) else '''')"

section \<open>Regular expressions of the source, written out\<close>

definition digit :: "char \<Rightarrow> bool" where
  "digit c = (c \<in> set ''0123456789'')"

text \<open>The line terminators that \<open>.\<close>, \<open>^\<close> and \<open>$\<close> know, among the code units modelled.\<close>

definition line_terminator :: "char \<Rightarrow> bool" where
  "line_terminator c = (c = CHR 0x0A \<or> c = CHR 0x0D)"

text \<open>\<open>\d+\<close> at the front of a string: what is left after the digits, if there is one.\<close>

definition digits1 :: "string \<Rightarrow> string option" where
  "digits1 s = (if takeWhile digit s = [] then None else Some (dropWhile digit s))"

definition literal_dot :: "string \<Rightarrow> string option" where
  "literal_dot s = (case s of [] \<Rightarrow> None | c # r \<Rightarrow> if c = CHR ''.'' then Some r else None)"

text \<open>\<open>([-+].*)?$\<close>: the end of the string, or a sign and no line terminator up to the end.\<close>

definition version_suffix :: "string \<Rightarrow> bool" where
  "version_suffix s =
     (case s of [] \<Rightarrow> True
      | c # r \<Rightarrow> (c = CHR ''-'' \<or> c = CHR ''+'') \<and> list_all (\<lambda>x. \<not> line_terminator x) r)"

text \<open>\<open>/^\d+\.\d+\.\d+([-+].*)?$/.test(range)\<close>.\<close>

definition exact_version :: "string \<Rightarrow> bool" where
  "exact_version r =
     (case Option.bind (Option.bind (Option.bind (Option.bind (digits1 r) literal_dot) digits1)
             literal_dot) digits1 of
        None \<Rightarrow> False
      | Some rest \<Rightarrow> version_suffix rest)"

text \<open>\<open>path.replace(/\+esm$/, "+esm.js")\<close>.\<close>

definition esm_to_js :: "string \<Rightarrow> string" where
  "esm_to_js p = (if endsWith p ''+esm'' then p @ ''.js'' else p)"

text \<open>\<open>resolveNpmSpecifier\<close>: \<open>path.replace(/^\/_npm\//, "").replace(/\/\+esm\.js$/, "/+esm")\<close>.\<close>

definition resolveNpmSpecifier :: "string \<Rightarrow> string" where
  "resolveNpmSpecifier path =
     (let p = (if startsWith path ''/_npm/'' then drop (length ''/_npm/'') path else path)
      in if endsWith p ''/+esm.js'' then take (length p - length ''/+esm.js'') p @ ''/+esm'' else p)"

text \<open>Case-insensitive matching of an ASCII pattern: upper-case ASCII letters fold to lower case.\<close>

definition lower :: "char \<Rightarrow> char" where
  "lower c = (case map_of (zip ''ABCDEFGHIJKLMNOPQRSTUVWXYZ'' ''abcdefghijklmnopqrstuvwxyz'') c of
                None \<Rightarrow> c | Some l \<Rightarrow> l)"

text \<open>\<open>/^application\/javascript(;|$)/i.test(header)\<close>; a missing header is \<open>null\<close>, which
  is tested as the string \<open>null\<close>.\<close>

definition javascript_content_type :: "string option \<Rightarrow> bool" where
  "javascript_content_type header =
     (let h = (case header of None \<Rightarrow> ''null'' | Some h \<Rightarrow> h);
          n = length ''application/javascript''
      in map lower (take n h) = ''application/javascript''
         \<and> (case drop n h of [] \<Rightarrow> True | c # _ \<Rightarrow> c = CHR '';''))"

text \<open>
  \<open>output.replace(/^\/\/# sourceMappingURL=.*$\n?/m, "")\<close>: without the \<open>g\<close> flag the first
  match only is removed. With the \<open>m\<close> flag \<open>^\<close> matches at the start of the text and after
  every line terminator; \<open>.*\<close> runs up to the next line terminator, where \<open>$\<close> matches;
  one line feed after it is removed as well. \<open>bol\<close> tells whether the position is the start
  of a line.
\<close>

fun strip_sourceMappingURL_from :: "bool \<Rightarrow> string \<Rightarrow> string" where
  "strip_sourceMappingURL_from bol [] = []"
| "strip_sourceMappingURL_from bol (c # cs) =
     (if bol \<and> startsWith (c # cs) ''//# sourceMappingURL=''
      then (let rest = dropWhile (\<lambda>x. \<not> line_terminator x)
                         (drop (length ''//# sourceMappingURL='') (c # cs))
            in case rest of [] \<Rightarrow> [] | x # r \<Rightarrow> if x = CHR 0x0A then r else rest)
      else c # strip_sourceMappingURL_from (line_terminator c) cs)"

definition strip_sourceMappingURL :: "string \<Rightarrow> string" where
  "strip_sourceMappingURL s = strip_sourceMappingURL_from True s"

section \<open>\<open>JSON.stringify\<close> of a string\<close>

definition hex_digit :: "nat \<Rightarrow> char" where
  "hex_digit n = ''0123456789abcdef'' ! (n mod 16)"

text \<open>The quotation mark, the backslash and the control characters are escaped.\<close>

definition json_escape :: "char \<Rightarrow> string" where
  "json_escape c =
     (if c = CHR 0x22 then [CHR 0x5C, CHR 0x22]
      else if c = CHR 0x5C then [CHR 0x5C, CHR 0x5C]
      else if c = CHR 0x08 then [CHR 0x5C, CHR ''b'']
      else if c = CHR 0x09 then [CHR 0x5C, CHR ''t'']
      else if c = CHR 0x0A then [CHR 0x5C, CHR ''n'']
      else if c = CHR 0x0C then [CHR 0x5C, CHR ''f'']
      else if c = CHR 0x0D then [CHR 0x5C, CHR ''r'']
      else if (of_char c :: nat) < 32
        then [CHR 0x5C, CHR ''u'', CHR ''0'', CHR ''0'',
              hex_digit ((of_char c :: nat) div 16), hex_digit (of_char c :: nat)]
      else [c])"

definition JSON_stringify :: "string \<Rightarrow> string" where
  "JSON_stringify s = CHR 0x22 # concat (map json_escape s) @ [CHR 0x22]"

section \<open>The syntax tree, as the rewriter sees it\<close>

text \<open>
  The parser and the tree walker are outside this file of the repository. A parsed program
  is taken as the sequence of nodes that the walker \<open>simple\<close> hands to the visitors, each
  node carrying what the visitors read from it. An expression is a string literal
  (\<open>isStringLiteral\<close> holds; \<open>start\<close> and \<open>end\<close> are its source range and the value is
  what \<open>getStringLiteralValue\<close> returns) or something else. A call expression carries
  whether \<open>isImportMetaResolve\<close> holds for it, and its arguments.
\<close>

datatype expression =
    StringLiteral (literal_start: nat) (literal_end: nat) (literal_value: string)
  | OtherExpression

datatype node =
    ImportDeclaration "expression option"
  | ImportExpression "expression option"
  | ExportAllDeclaration "expression option"
  | ExportNamedDeclaration "expression option"
  | CallExpression bool "expression list"
  | OtherNode

type_synonym program = "node list"

section \<open>Sourcemap\<close>

record edit =
  edit_start :: nat
  edit_end :: nat
  edit_value :: string

text \<open>
  Modelled from the spec: the class \<open>Sourcemap\<close> of \<open>sourcemap.js\<close>, the text-splice utility
  that applies a list of range replacements to a string: an ordered list of
  (start offset, end offset, replacement text) edits applied as a single pass over the
  original text. \<open>replaceLeft\<close> puts the new edit before the edits that start at or after
  its start offset.
\<close>

fun replaceLeft :: "edit list \<Rightarrow> nat \<Rightarrow> nat \<Rightarrow> string \<Rightarrow> edit list" where
  "replaceLeft [] s e v = [\<lparr>edit_start = s, edit_end = e, edit_value = v\<rparr>]"
| "replaceLeft (x # xs) s e v =
     (if edit_start x < s then x # replaceLeft xs s e v
      else \<lparr>edit_start = s, edit_end = e, edit_value = v\<rparr> # x # xs)"

text \<open>\<open>input.slice(from, to)\<close>.\<close>

definition slice :: "string \<Rightarrow> nat \<Rightarrow> nat \<Rightarrow> string" where
  "slice s from to = take (to - from) (drop from s)"

text \<open>Modelled from the spec: \<open>String(output)\<close>, the single pass from offset \<open>index\<close> on.\<close>

fun sourcemap_toString :: "string \<Rightarrow> nat \<Rightarrow> edit list \<Rightarrow> string" where
  "sourcemap_toString input index [] = drop index input"
| "sourcemap_toString input index (x # xs) =
     slice input index (edit_start x) @ edit_value x @ sourcemap_toString input (edit_end x) xs"

section \<open>rewriteNpmImports\<close>

definition rewriteImportSource :: "(string \<Rightarrow> string) \<Rightarrow> edit list \<Rightarrow> expression \<Rightarrow> edit list" where
  "rewriteImportSource resolve output source =
     (case source of
        OtherExpression \<Rightarrow> output
      | StringLiteral s e v \<Rightarrow>
          (let resolved = resolve v
           in if v \<noteq> resolved then replaceLeft output s e (JSON_stringify resolved) else output))"

text \<open>\<open>if (node.source && isStringLiteral(node.source))\<close>: \<open>rewriteImportSource\<close> does nothing
  on an expression that is not a string literal.\<close>

definition rewriteImport :: "(string \<Rightarrow> string) \<Rightarrow> edit list \<Rightarrow> expression option \<Rightarrow> edit list" where
  "rewriteImport resolve output source =
     (case source of None \<Rightarrow> output | Some x \<Rightarrow> rewriteImportSource resolve output x)"

text \<open>\<open>isImportMetaResolve\<close> holds only of a call with at least one argument.\<close>

definition rewriteImportMetaResolve ::
    "(string \<Rightarrow> string) \<Rightarrow> edit list \<Rightarrow> bool \<Rightarrow> expression list \<Rightarrow> edit list" where
  "rewriteImportMetaResolve resolve output is_resolve arguments =
     (case arguments of
        [] \<Rightarrow> output
      | x # _ \<Rightarrow> if is_resolve then rewriteImportSource resolve output x else output)"

fun rewrite_visit :: "(string \<Rightarrow> string) \<Rightarrow> edit list \<Rightarrow> node \<Rightarrow> edit list" where
  "rewrite_visit resolve output (ImportDeclaration source) = rewriteImport resolve output source"
| "rewrite_visit resolve output (ImportExpression source) = rewriteImport resolve output source"
| "rewrite_visit resolve output (ExportAllDeclaration source) = rewriteImport resolve output source"
| "rewrite_visit resolve output (ExportNamedDeclaration source) = rewriteImport resolve output source"
| "rewrite_visit resolve output (CallExpression is_resolve arguments) =
     rewriteImportMetaResolve resolve output is_resolve arguments"
| "rewrite_visit resolve output OtherNode = output"

text \<open>\<open>rewriteNpmImports\<close>; \<open>parseProgram\<close> is the parser, which fails on a syntax error.\<close>

definition rewriteNpmImports ::
    "(string \<Rightarrow> error + program) \<Rightarrow> string \<Rightarrow> (string \<Rightarrow> string) \<Rightarrow> error + string" where
  "rewriteNpmImports parseProgram input resolve =
     (case parseProgram input of
        Inl e \<Rightarrow> Inl e
      | Inr body \<Rightarrow>
          Inr (strip_sourceMappingURL
                 (sourcemap_toString input 0 (foldl (rewrite_visit resolve) [] body))))"

section \<open>The world outside: file system, network, libraries\<close>

text \<open>
  What the module calls but does not define is a parameter of the model: the functions of
  \<open>node:path/posix\<close> and \<open>node:fs\<close> (over a file system of any type \<open>'fs\<close>), \<open>fetch\<close>,
  the parser, \<open>JSON.parse\<close> on a manifest and on the answer of the version service, the
  \<open>semver\<close> functions, and the helpers \<open>relativePath\<close> and \<open>isEnoent\<close> of the repository.
  A call that can raise returns a sum. Writes to the console are left out.
\<close>

record response =
  response_ok :: bool
  response_content_type :: "string option"
  response_body :: string

text \<open>The three fields of \<open>package.json\<close> that are read; each may be missing.\<close>

record manifest =
  dependencies :: "(string \<times> string) list option"
  devDependencies :: "(string \<times> string) list option"
  peerDependencies :: "(string \<times> string) list option"

record 'fs env =
  join :: "string list \<Rightarrow> string"
  dirname :: "string \<Rightarrow> string"
  existsSync :: "'fs \<Rightarrow> string \<Rightarrow> bool"
  readdir :: "'fs \<Rightarrow> string \<Rightarrow> error + string list"
  readFile :: "'fs \<Rightarrow> string \<Rightarrow> error + string"
  writeFile :: "string \<Rightarrow> string \<Rightarrow> 'fs \<Rightarrow> error + 'fs"
  mkdir :: "string \<Rightarrow> 'fs \<Rightarrow> error + 'fs"
  fetch :: "string \<Rightarrow> error + response"
  parseProgram :: "string \<Rightarrow> error + program"
  parseManifest :: "string \<Rightarrow> error + manifest"
  parseVersion :: "string \<Rightarrow> error + string option"
  satisfies :: "string option \<Rightarrow> string \<Rightarrow> bool"
  rsort :: "string option list \<Rightarrow> error + string option list"
  relativePath :: "string \<Rightarrow> string \<Rightarrow> string"
  isEnoent :: "error \<Rightarrow> bool"

text \<open>
  A \<open>Map\<close> is an association list in insertion order; the version index maps a package
  name to its versions. A version is what stands after the \<open>@\<close> of a directory name, and
  \<open>undefined\<close> for a directory name without one.
\<close>

type_synonym version_index = "(string \<times> string option list) list"

text \<open>\<open>map.set(k, v)\<close>: an existing key keeps its place, a new key goes last.\<close>

fun map_set :: "('k \<times> 'v) list \<Rightarrow> 'k \<Rightarrow> 'v \<Rightarrow> ('k \<times> 'v) list" where
  "map_set [] k v = [(k, v)]"
| "map_set (p # m) k v = (if fst p = k then (k, v) # m else p # map_set m k v)"

text \<open>
  The state of the module and of the world: the file system, the keys of the two registries
  of pending requests, the version index once it is asked for (or the error its
  initialisation raised), and the requests sent over the network so far.
\<close>

record 'fs world =
  fs :: 'fs
  npmRequests :: "string list"
  npmVersionCache :: "(error + version_index) option"
  npmVersionRequests :: "string list"
  fetched :: "string list"

text \<open>
  An asynchronous call is run to its end, one call at a time. It returns a value, raises an
  error, or comes upon a request that is pending under a key of a registry and hands back
  that request's promise.
\<close>

datatype 'a outcome = Returned 'a | Threw error | Awaiting string

section \<open>The version index\<close>

text \<open>The two branches \<open>versions.push(range)\<close> and \<open>cache.set(name, [range])\<close>.\<close>

definition push_version :: "version_index \<Rightarrow> NpmSpecifier \<Rightarrow> version_index" where
  "push_version cache s =
     (case map_of cache (npm_name s) of
        Some versions \<Rightarrow> map_set cache (npm_name s) (versions @ [npm_range s])
      | None \<Rightarrow> map_set cache (npm_name s) [npm_range s])"

text \<open>
  The body of the \<open>try\<close> block: the loops over the entries of the cache directory. An
  error ends them; the index filled so far stays.
\<close>

fun read_subentries :: "string \<Rightarrow> string list \<Rightarrow> version_index \<Rightarrow> error option \<times> version_index" where
  "read_subentries entry [] cache = (None, cache)"
| "read_subentries entry (subentry # rest) cache =
     (case parseNpmSpecifier (entry @ ''/'' @ subentry) of
        Inl e \<Rightarrow> (Some e, cache)
      | Inr s \<Rightarrow> read_subentries entry rest (push_version cache s))"

fun read_entries ::
    "'fs env \<Rightarrow> 'fs \<Rightarrow> string \<Rightarrow> string list \<Rightarrow> version_index \<Rightarrow> error option \<times> version_index" where
  "read_entries env disk cacheDir [] cache = (None, cache)"
| "read_entries env disk cacheDir (entry # rest) cache =
     (if startsWith entry ''@''
      then (case readdir env disk (join env [cacheDir, entry]) of
              Inl e \<Rightarrow> (Some e, cache)
            | Inr subentries \<Rightarrow>
                (case read_subentries entry subentries cache of
                   (Some e, cache') \<Rightarrow> (Some e, cache')
                 | (None, cache') \<Rightarrow> read_entries env disk cacheDir rest cache'))
      else (case parseNpmSpecifier entry of
              Inl e \<Rightarrow> (Some e, cache)
            | Inr s \<Rightarrow> read_entries env disk cacheDir rest (push_version cache s)))"

text \<open>The last loop: \<open>cache.set(key, rsort(value))\<close> for every entry.\<close>

fun sort_versions :: "'fs env \<Rightarrow> version_index \<Rightarrow> error + version_index" where
  "sort_versions env [] = Inr []"
| "sort_versions env (p # rest) =
     (case rsort env (snd p) of
        Inl e \<Rightarrow> Inl e
      | Inr ordered \<Rightarrow>
          (case sort_versions env rest of
             Inl e \<Rightarrow> Inl e
           | Inr rest' \<Rightarrow> Inr ((fst p, ordered) # rest')))"

definition initializeNpmVersionCache :: "'fs env \<Rightarrow> string \<Rightarrow> 'fs \<Rightarrow> error + version_index" where
  "initializeNpmVersionCache env root disk =
     (let cacheDir = join env [root, ''.observablehq'', ''cache'', ''_npm''];
          (thrown, cache) =
            (case readdir env disk cacheDir of
               Inl e \<Rightarrow> (Some e, [])
             | Inr entries \<Rightarrow> read_entries env disk cacheDir entries [])
      in case thrown of
           None \<Rightarrow> sort_versions env cache
         | Some error \<Rightarrow> if \<not> isEnoent env error then Inl error else sort_versions env cache)"

section \<open>resolveNpmVersion\<close>

text \<open>\<open>range && /^\d+\.\d+\.\d+([-+].*)?$/.test(range)\<close>.\<close>

definition exact_range :: "string option \<Rightarrow> bool" where
  "exact_range rng = (case rng of None \<Rightarrow> False | Some r \<Rightarrow> r \<noteq> [] \<and> exact_version r)"

text \<open>\<open>!range || satisfies(version, range)\<close>.\<close>

definition admits :: "'fs env \<Rightarrow> string option \<Rightarrow> string option \<Rightarrow> bool" where
  "admits env rng version =
     (case rng of None \<Rightarrow> True | Some r \<Rightarrow> if r = [] then True else satisfies env version r)"

text \<open>The address of the version service for a name and a range.\<close>

definition resolved_href :: "string \<Rightarrow> string option \<Rightarrow> string" where
  "resolved_href name rng =
     ''https://data.jsdelivr.com/v1/packages/npm/'' @ name @ ''/resolved''
       @ (if truthy rng then ''?specifier='' @ template rng else '''')"

text \<open>
  The anonymous asynchronous function of \<open>resolveNpmVersion\<close>: the request to the version
  service. The directory of the new version is made without waiting and whether or not
  that works.
\<close>

definition fetchNpmVersion ::
    "'fs env \<Rightarrow> string \<Rightarrow> NpmSpecifier \<Rightarrow> string \<Rightarrow> version_index \<Rightarrow> string option list option
       \<Rightarrow> 'fs world \<Rightarrow> string option outcome \<times> 'fs world" where
  "fetchNpmVersion env root specifier href cache versions w0 =
     (let name = npm_name specifier; rng = npm_range specifier;
          w = w0\<lparr>fetched := fetched w0 @ [href]\<rparr>
      in case fetch env href of
           Inl e \<Rightarrow> (Threw e, w)
         | Inr response \<Rightarrow>
             if \<not> response_ok response then (Threw (UnableToFetch href), w)
             else (case parseVersion env (response_body response) of
                     Inl e \<Rightarrow> (Threw e, w)
                   | Inr version \<Rightarrow>
                       if \<not> truthy version
                       then (Threw (UnableToResolveVersion
                               (formatNpmSpecifier \<lparr>npm_name = name, npm_range = rng, npm_path = None\<rparr>)), w)
                       else (let spec = formatNpmSpecifier
                                          \<lparr>npm_name = name, npm_range = version, npm_path = None\<rparr>
                             in case (case versions of
                                        Some vs \<Rightarrow> rsort env (vs @ [version])
                                      | None \<Rightarrow> Inr [version]) of
                                  Inl e \<Rightarrow> (Threw e, w)
                                | Inr ordered \<Rightarrow>
                                    (Returned version,
                                     w\<lparr>npmVersionCache := Some (Inr (map_set cache name ordered)),
                                       fs := (case mkdir env (join env [root, ''.observablehq'', ''cache'', ''_npm'', spec]) (fs w) of
                                                Inl _ \<Rightarrow> fs w
                                              | Inr disk \<Rightarrow> disk)\<rparr>))))"

text \<open>A request that has settled is taken out of its registry; one that waits stays.\<close>

definition settled :: "'a outcome \<Rightarrow> bool" where
  "settled r = (case r of Awaiting _ \<Rightarrow> False | _ \<Rightarrow> True)"

text \<open>\<open>await (npmVersionCache ??= initializeNpmVersionCache(root))\<close>: the index, read from the
  disk the first time it is asked for.\<close>

definition loadNpmVersionCache :: "'fs env \<Rightarrow> string \<Rightarrow> 'fs world \<Rightarrow> error + version_index" where
  "loadNpmVersionCache env root w =
     (case npmVersionCache w of
        None \<Rightarrow> initializeNpmVersionCache env root (fs w)
      | Some c \<Rightarrow> c)"

text \<open>The scan of the cached versions of a package: the first one the range admits.\<close>

definition cachedVersion ::
    "'fs env \<Rightarrow> string option list option \<Rightarrow> string option \<Rightarrow> string option option" where
  "cachedVersion env versions rng =
     (case versions of None \<Rightarrow> None | Some vs \<Rightarrow> find (admits env rng) vs)"

definition resolveNpmVersion ::
    "'fs env \<Rightarrow> string \<Rightarrow> NpmSpecifier \<Rightarrow> 'fs world \<Rightarrow> string option outcome \<times> 'fs world" where
  "resolveNpmVersion env root specifier w0 =
     (let name = npm_name specifier; rng = npm_range specifier
      in if exact_range rng then (Returned rng, w0)
         else
           (let loaded = loadNpmVersionCache env root w0;
                w = w0\<lparr>npmVersionCache := Some loaded\<rparr>
            in case loaded of
                 Inl e \<Rightarrow> (Threw e, w)
               | Inr cache \<Rightarrow>
                   (let versions = map_of cache (npm_name specifier)
                    in case cachedVersion env versions rng of
                         Some version \<Rightarrow> (Returned version, w)
                       | None \<Rightarrow>
                           (let href = resolved_href name rng
                            in if href \<in> set (npmVersionRequests w) then (Awaiting href, w)
                               else
                                 (let (r, w') = fetchNpmVersion env root specifier href cache versions
                                                  (w\<lparr>npmVersionRequests := href # npmVersionRequests w\<rparr>)
                                  in (r, if settled r
                                         then w'\<lparr>npmVersionRequests := removeAll href (npmVersionRequests w')\<rparr>
                                         else w'))))))"

section \<open>resolveNpmImport\<close>

text \<open>The defaults of the destructuring: the range and the path when the specifier has none.\<close>

definition importRange :: "NpmSpecifier \<Rightarrow> string option" where
  "importRange s =
     (case npm_range s of
        Some r \<Rightarrow> Some r
      | None \<Rightarrow> if npm_name s = ''@duckdb/duckdb-wasm'' then Some ''1.28.0''
                else if npm_name s = ''parquet-wasm'' then Some ''0.5.0''
                else None)"

definition importPath :: "NpmSpecifier \<Rightarrow> string" where
  "importPath s =
     (case npm_path s of
        Some p \<Rightarrow> p
      | None \<Rightarrow> if npm_name s = ''mermaid'' then ''dist/mermaid.esm.min.mjs/+esm''
                else if npm_name s = ''echarts'' then ''dist/echarts.esm.min.js''
                else ''+esm'')"

definition resolveNpmImport ::
    "'fs env \<Rightarrow> string \<Rightarrow> string \<Rightarrow> 'fs world \<Rightarrow> string outcome \<times> 'fs world" where
  "resolveNpmImport env root specifier w =
     (case parseNpmSpecifier specifier of
        Inl e \<Rightarrow> (Threw e, w)
      | Inr s \<Rightarrow>
          (let name = npm_name s; rng = importRange s; path = importPath s
           in case resolveNpmVersion env root \<lparr>npm_name = name, npm_range = rng, npm_path = None\<rparr> w of
                (Returned version, w') \<Rightarrow>
                  (Returned (''/_npm/'' @ name @ ''@'' @ template version @ ''/'' @ esm_to_js path), w')
              | (Threw e, w') \<Rightarrow> (Threw e, w')
              | (Awaiting k, w') \<Rightarrow> (Awaiting k, w')))"

section \<open>getDependencyResolver\<close>

text \<open>A \<open>Set\<close> of strings in insertion order.\<close>

definition set_add :: "string list \<Rightarrow> string \<Rightarrow> string list" where
  "set_add s x = (if x \<in> set s then s else s @ [x])"

definition findImportSource ::
    "'fs env \<Rightarrow> 'fs \<Rightarrow> string \<Rightarrow> string \<Rightarrow> string list \<Rightarrow> expression \<Rightarrow> error + string list" where
  "findImportSource env disk root name deps source =
     (case source of
        OtherExpression \<Rightarrow> Inr deps
      | StringLiteral _ _ v \<Rightarrow>
          if startsWith v ''/npm/''
          then (case parseNpmSpecifier (drop (length ''/npm/'') v) of
                  Inl e \<Rightarrow> Inl e
                | Inr dep \<Rightarrow>
                    if npm_name dep = name then Inr deps
                    else if existsSync env disk
                              (join env [root, ''.observablehq'', ''cache'', ''_npm'',
                                         npm_name dep @ ''@'' @ template (npm_range dep)])
                      then Inr deps
                    else Inr (set_add deps v))
          else Inr deps)"

definition findImport ::
    "'fs env \<Rightarrow> 'fs \<Rightarrow> string \<Rightarrow> string \<Rightarrow> string list \<Rightarrow> expression option \<Rightarrow> error + string list" where
  "findImport env disk root name deps source =
     (case source of None \<Rightarrow> Inr deps | Some x \<Rightarrow> findImportSource env disk root name deps x)"

definition findImportMetaResolve ::
    "'fs env \<Rightarrow> 'fs \<Rightarrow> string \<Rightarrow> string \<Rightarrow> string list \<Rightarrow> bool \<Rightarrow> expression list
       \<Rightarrow> error + string list" where
  "findImportMetaResolve env disk root name deps is_resolve arguments =
     (case arguments of
        [] \<Rightarrow> Inr deps
      | x # _ \<Rightarrow> if is_resolve then findImportSource env disk root name deps x else Inr deps)"

fun find_visit ::
    "'fs env \<Rightarrow> 'fs \<Rightarrow> string \<Rightarrow> string \<Rightarrow> string list \<Rightarrow> node \<Rightarrow> error + string list" where
  "find_visit env disk root name deps (ImportDeclaration source) = findImport env disk root name deps source"
| "find_visit env disk root name deps (ImportExpression source) = findImport env disk root name deps source"
| "find_visit env disk root name deps (ExportAllDeclaration source) = findImport env disk root name deps source"
| "find_visit env disk root name deps (ExportNamedDeclaration source) = findImport env disk root name deps source"
| "find_visit env disk root name deps (CallExpression is_resolve arguments) =
     findImportMetaResolve env disk root name deps is_resolve arguments"
| "find_visit env disk root name deps OtherNode = Inr deps"

text \<open>The walk over the program that fills the set \<open>dependencies\<close>.\<close>

fun findDependencies ::
    "'fs env \<Rightarrow> 'fs \<Rightarrow> string \<Rightarrow> string \<Rightarrow> program \<Rightarrow> string list \<Rightarrow> error + string list" where
  "findDependencies env disk root name [] deps = Inr deps"
| "findDependencies env disk root name (n # ns) deps =
     (case find_visit env disk root name deps n of
        Inl e \<Rightarrow> Inl e
      | Inr deps' \<Rightarrow> findDependencies env disk root name ns deps')"

text \<open>\<open>pkg.dependencies?.[depName]\<close> and \<open>a ?? b\<close>.\<close>

definition optional_member :: "(string \<times> string) list option \<Rightarrow> string \<Rightarrow> string option" where
  "optional_member field k = (case field of None \<Rightarrow> None | Some m \<Rightarrow> map_of m k)"

definition nullish :: "'a option \<Rightarrow> 'a option \<Rightarrow> 'a option" where
  "nullish a b = (case a of None \<Rightarrow> b | Some _ \<Rightarrow> a)"

text \<open>The constant \<open>range\<close> of the loop: the overrides first, then the manifest.\<close>

definition dependencyRange :: "string \<Rightarrow> string \<Rightarrow> manifest \<Rightarrow> string option" where
  "dependencyRange name depName pkg =
     (if (name = ''arquero'' \<or> name = ''@uwdata/mosaic-core'' \<or> name = ''@duckdb/duckdb-wasm'')
          \<and> depName = ''apache-arrow''
      then Some ''latest''
      else if name = ''@uwdata/mosaic-core'' \<and> depName = ''@duckdb/duckdb-wasm''
      then Some ''1.28.0''
      else nullish (nullish (optional_member (dependencies pkg) depName)
                      (optional_member (devDependencies pkg) depName))
             (optional_member (peerDependencies pkg) depName))"

text \<open>
  What the loop asks \<open>resolveNpmImport\<close> for one dependency: the specifier
  \<open>`${depName}@${range}/${depPath}`\<close>, or nothing when no range is found.
\<close>

definition dependencyRequest :: "string \<Rightarrow> manifest \<Rightarrow> string \<Rightarrow> error + string option" where
  "dependencyRequest name pkg dependency =
     (case parseNpmSpecifier (drop (length ''/npm/'') dependency) of
        Inl e \<Rightarrow> Inl e
      | Inr dep \<Rightarrow>
          (let depName = npm_name dep;
               depPath = (case npm_path dep of None \<Rightarrow> ''+esm'' | Some p \<Rightarrow> p)
           in case dependencyRange name depName pkg of
                None \<Rightarrow> Inr None
              | Some rng \<Rightarrow> Inr (Some (depName @ ''@'' @ rng @ ''/'' @ depPath))))"

text \<open>The loop over the dependencies, filling the map \<open>resolutions\<close>.\<close>

fun resolveDependencies ::
    "'fs env \<Rightarrow> string \<Rightarrow> string \<Rightarrow> manifest \<Rightarrow> string list \<Rightarrow> (string \<times> string) list
       \<Rightarrow> 'fs world \<Rightarrow> (string \<times> string) list outcome \<times> 'fs world" where
  "resolveDependencies env root name pkg [] resolutions w = (Returned resolutions, w)"
| "resolveDependencies env root name pkg (dependency # rest) resolutions w =
     (case dependencyRequest name pkg dependency of
        Inl e \<Rightarrow> (Threw e, w)
      | Inr None \<Rightarrow> resolveDependencies env root name pkg rest resolutions w
      | Inr (Some request) \<Rightarrow>
          (case resolveNpmImport env root request w of
             (Returned p, w') \<Rightarrow>
               resolveDependencies env root name pkg rest (map_set resolutions dependency p) w'
           | (Threw e, w') \<Rightarrow> (Threw e, w')
           | (Awaiting k, w') \<Rightarrow> (Awaiting k, w')))"

text \<open>
  The function that \<open>getDependencyResolver\<close> returns. \<open>cachePath\<close> is the specifier after
  the lookup in \<open>resolutions\<close> or the swap of the prefix, before \<open>relativePath\<close>.
\<close>

definition cachePath :: "(string \<times> string) list \<Rightarrow> string \<Rightarrow> string" where
  "cachePath resolutions specifier =
     (case map_of resolutions specifier of
        Some p \<Rightarrow> p
      | None \<Rightarrow> ''/_npm/'' @ drop (length ''/npm/'') specifier
                 @ (if endsWith specifier ''/+esm'' then ''.js'' else ''''))"

definition dependencyResolver :: "'fs env \<Rightarrow> string \<Rightarrow> (string \<times> string) list \<Rightarrow> string \<Rightarrow> string" where
  "dependencyResolver env path resolutions specifier =
     (if \<not> startsWith specifier ''/npm/'' then specifier
      else relativePath env path (cachePath resolutions specifier))"

text \<open>
  \<open>getDependencyResolver\<close>; \<open>populate\<close> is \<open>populateNpmCache\<close>, which it calls for the
  manifest and which calls it.
\<close>

definition getDependencyResolver ::
    "(string \<Rightarrow> string \<Rightarrow> 'fs world \<Rightarrow> string outcome \<times> 'fs world)
       \<Rightarrow> 'fs env \<Rightarrow> string \<Rightarrow> string \<Rightarrow> string \<Rightarrow> 'fs world
       \<Rightarrow> (string \<Rightarrow> string) outcome \<times> 'fs world" where
  "getDependencyResolver populate env root path input w =
     (case parseProgram env input of
        Inl e \<Rightarrow> (Threw e, w)
      | Inr program \<Rightarrow>
          (case parseNpmSpecifier (resolveNpmSpecifier path) of
             Inl e \<Rightarrow> (Threw e, w)
           | Inr self \<Rightarrow>
               (let name = npm_name self; rng = npm_range self
                in case findDependencies env (fs w) root name program [] of
                     Inl e \<Rightarrow> (Threw e, w)
                   | Inr deps \<Rightarrow>
                       if length deps > 0
                       then (case populate root (''/_npm/'' @ name @ ''@'' @ template rng @ ''/package.json'') w of
                               (Returned pkgPath, w1) \<Rightarrow>
                                 (case readFile env (fs w1) pkgPath of
                                    Inl e \<Rightarrow> (Threw e, w1)
                                  | Inr contents \<Rightarrow>
                                      (case parseManifest env contents of
                                         Inl e \<Rightarrow> (Threw e, w1)
                                       | Inr pkg \<Rightarrow>
                                           (case resolveDependencies env root name pkg deps [] w1 of
                                              (Returned resolutions, w2) \<Rightarrow>
                                                (Returned (dependencyResolver env path resolutions), w2)
                                            | (Threw e, w2) \<Rightarrow> (Threw e, w2)
                                            | (Awaiting k, w2) \<Rightarrow> (Awaiting k, w2))))
                             | (Threw e, w1) \<Rightarrow> (Threw e, w1)
                             | (Awaiting k, w1) \<Rightarrow> (Awaiting k, w1))
                       else (Returned (dependencyResolver env path []), w))))"

section \<open>populateNpmCache\<close>

text \<open>The anonymous asynchronous function of \<open>populateNpmCache\<close>: fetch, rewrite, write.\<close>

definition fetchNpmFile ::
    "(string \<Rightarrow> string \<Rightarrow> 'fs world \<Rightarrow> string outcome \<times> 'fs world)
       \<Rightarrow> 'fs env \<Rightarrow> string \<Rightarrow> string \<Rightarrow> string \<Rightarrow> 'fs world \<Rightarrow> string outcome \<times> 'fs world" where
  "fetchNpmFile populate env root path filePath w0 =
     (let specifier = resolveNpmSpecifier path;
          href = ''https://cdn.jsdelivr.net/npm/'' @ specifier;
          w = w0\<lparr>fetched := fetched w0 @ [href]\<rparr>
      in case fetch env href of
           Inl e \<Rightarrow> (Threw e, w)
         | Inr response \<Rightarrow>
             if \<not> response_ok response then (Threw (UnableToFetch href), w)
             else (case mkdir env (dirname env filePath) (fs w) of
                     Inl e \<Rightarrow> (Threw e, w)
                   | Inr disk \<Rightarrow>
                       (let w1 = w\<lparr>fs := disk\<rparr>
                        in if javascript_content_type (response_content_type response)
                           then (let source = response_body response
                                 in case getDependencyResolver populate env root path source w1 of
                                      (Returned resolver, w2) \<Rightarrow>
                                        (case rewriteNpmImports (parseProgram env) source resolver of
                                           Inl e \<Rightarrow> (Threw e, w2)
                                         | Inr rewritten \<Rightarrow>
                                             (case writeFile env filePath rewritten (fs w2) of
                                                Inl e \<Rightarrow> (Threw e, w2)
                                              | Inr disk' \<Rightarrow> (Returned filePath, w2\<lparr>fs := disk'\<rparr>)))
                                    | (Threw e, w2) \<Rightarrow> (Threw e, w2)
                                    | (Awaiting k, w2) \<Rightarrow> (Awaiting k, w2))
                           else (case writeFile env filePath (response_body response) (fs w1) of
                                   Inl e \<Rightarrow> (Threw e, w1)
                                 | Inr disk' \<Rightarrow> (Returned filePath, w1\<lparr>fs := disk'\<rparr>)))))"

text \<open>The body of \<open>populateNpmCache\<close>, with the function itself as \<open>populate\<close>.\<close>

definition populateNpmCache_body ::
    "(string \<Rightarrow> string \<Rightarrow> 'fs world \<Rightarrow> string outcome \<times> 'fs world)
       \<Rightarrow> 'fs env \<Rightarrow> string \<Rightarrow> string \<Rightarrow> 'fs world \<Rightarrow> string outcome \<times> 'fs world" where
  "populateNpmCache_body populate env root path w =
     (if \<not> startsWith path ''/_npm/'' then (Threw (InvalidNpmPath path), w)
      else
        (let filePath = join env [root, ''.observablehq'', ''cache'', path]
         in if existsSync env (fs w) filePath then (Returned filePath, w)
            else if path \<in> set (npmRequests w) then (Awaiting path, w)
            else
              (let (r, w') = fetchNpmFile populate env root path filePath
                               (w\<lparr>npmRequests := path # npmRequests w\<rparr>)
               in (r, if settled r
                      then w'\<lparr>npmRequests := removeAll path (npmRequests w')\<rparr>
                      else w'))))"

text \<open>
  \<open>populateNpmCache\<close>, by the number of nested calls of itself it may make: a module, its
  manifest, and so on. With none left the nested call raises \<open>OutOfFuel\<close>.
\<close>

primrec populateNpmCache ::
    "nat \<Rightarrow> 'fs env \<Rightarrow> string \<Rightarrow> string \<Rightarrow> 'fs world \<Rightarrow> string outcome \<times> 'fs world" where
  "populateNpmCache 0 env = populateNpmCache_body (\<lambda>root path w. (Threw OutOfFuel, w)) env"
| "populateNpmCache (Suc n) env = populateNpmCache_body (populateNpmCache n env) env"

section \<open>A small world to run the model in\<close>

text \<open>
  Stand-ins for the parameters, for evaluating the model on examples: paths as
  \<open>node:path/posix\<close> joins them, a disk as a list of paths with the contents of the files,
  versions compared by their numbers, and \<open>relativePath\<close> from one cache path to another.
\<close>

fun normalize_segments :: "bool \<Rightarrow> string list \<Rightarrow> string list \<Rightarrow> string list" where
  "normalize_segments up [] acc = rev acc"
| "normalize_segments up (seg # segs) acc =
     (if seg = [] \<or> seg = ''.'' then normalize_segments up segs acc
      else if seg = ''..''
        then (case acc of
                [] \<Rightarrow> normalize_segments up segs (if up then [''..''] else [])
              | d # ds \<Rightarrow> if d = ''..'' then normalize_segments up segs (''..'' # acc)
                          else normalize_segments up segs ds)
      else normalize_segments up segs (seg # acc))"

definition posix_normalize :: "string \<Rightarrow> string" where
  "posix_normalize p =
     (if p = [] then ''.''
      else (let absolute = startsWith p ''/''; trailing = endsWith p ''/'';
                q = array_join ''/'' (normalize_segments (\<not> absolute) (split CHR ''/'' p) [])
            in if q = [] then (if absolute then ''/'' else if trailing then ''./'' else ''.'')
               else (if absolute then ''/'' else '''') @ q @ (if trailing then ''/'' else '''')))"

definition posix_join :: "string list \<Rightarrow> string" where
  "posix_join parts =
     (let joined = array_join ''/'' (filter (\<lambda>p. p \<noteq> []) parts)
      in if joined = [] then ''.'' else posix_normalize joined)"

text \<open>The directory of a normalized path with no trailing slash.\<close>

definition posix_dirname :: "string \<Rightarrow> string" where
  "posix_dirname p =
     (let parts = split CHR ''/'' p
      in if length parts < 2 then ''.''
         else if butlast parts = [[]] then ''/''
         else array_join ''/'' (butlast parts))"

type_synonym disk = "(string \<times> string option) list"

definition disk_exists :: "disk \<Rightarrow> string \<Rightarrow> bool" where
  "disk_exists d p = (map_of d p \<noteq> None)"

definition disk_readdir :: "disk \<Rightarrow> string \<Rightarrow> error + string list" where
  "disk_readdir d p =
     (if map_of d p = None then Inl (FsError ''ENOENT'')
      else Inr (remdups (List.map_filter
                  (\<lambda>(q, _). if startsWith q (p @ ''/'') \<and> CHR ''/'' \<notin> set (drop (length p + 1) q)
                            then Some (drop (length p + 1) q) else None) d)))"

definition disk_readFile :: "disk \<Rightarrow> string \<Rightarrow> error + string" where
  "disk_readFile d p =
     (case map_of d p of
        None \<Rightarrow> Inl (FsError ''ENOENT'')
      | Some None \<Rightarrow> Inl (FsError ''EISDIR'')
      | Some (Some contents) \<Rightarrow> Inr contents)"

definition disk_writeFile :: "string \<Rightarrow> string \<Rightarrow> disk \<Rightarrow> error + disk" where
  "disk_writeFile p contents d = Inr ((p, Some contents) # d)"

definition disk_mkdir :: "string \<Rightarrow> disk \<Rightarrow> error + disk" where
  "disk_mkdir p d = Inr (if map_of d p = None then (p, None) # d else d)"

text \<open>The numbers of a version, and a descending insertion sort on them.\<close>

definition version_numbers :: "string option \<Rightarrow> nat list" where
  "version_numbers v =
     (case v of
        None \<Rightarrow> []
      | Some s \<Rightarrow> map (\<lambda>part. foldl (\<lambda>n c. 10 * n + (of_char c - of_char CHR ''0'')) 0 (takeWhile digit part))
                   (split CHR ''.'' s))"

fun numbers_less :: "nat list \<Rightarrow> nat list \<Rightarrow> bool" where
  "numbers_less [] [] = False"
| "numbers_less [] (y # ys) = True"
| "numbers_less (x # xs) [] = False"
| "numbers_less (x # xs) (y # ys) = (x < y \<or> (x = y \<and> numbers_less xs ys))"

fun insert_descending :: "string option \<Rightarrow> string option list \<Rightarrow> string option list" where
  "insert_descending v [] = [v]"
| "insert_descending v (x # xs) =
     (if numbers_less (version_numbers v) (version_numbers x) then x # insert_descending v xs
      else v # x # xs)"

definition numbers_rsort :: "string option list \<Rightarrow> error + string option list" where
  "numbers_rsort vs = Inr (foldr insert_descending vs [])"

text \<open>A caret range \<open>^N\<close> takes the versions \<open>N.x.y\<close>; nothing else is a range.\<close>

definition caret_satisfies :: "string option \<Rightarrow> string \<Rightarrow> bool" where
  "caret_satisfies version rng =
     (case version of
        None \<Rightarrow> False
      | Some s \<Rightarrow> startsWith rng ''^'' \<and> list_all digit (drop 1 rng) \<and> length rng > 1
                  \<and> startsWith s (drop 1 rng @ ''.''))"

text \<open>From the directory of one path to another path; a target with a scheme stays.\<close>

fun common_prefix_length :: "string list \<Rightarrow> string list \<Rightarrow> nat" where
  "common_prefix_length (x # xs) (y # ys) = (if x = y then Suc (common_prefix_length xs ys) else 0)"
| "common_prefix_length _ _ = 0"

definition word_char :: "char \<Rightarrow> bool" where
  "word_char c =
     (c \<in> set ''abcdefghijklmnopqrstuvwxyzABCDEFGHIJKLMNOPQRSTUVWXYZ0123456789_'')"

definition relative_path :: "string \<Rightarrow> string \<Rightarrow> string" where
  "relative_path source target =
     (if takeWhile word_char target \<noteq> [] \<and> startsWith (dropWhile word_char target) '':''
      then target
      else (let src = butlast (split CHR ''/'' (posix_join [''/'', source]));
                to = butlast (split CHR ''/'' (posix_join [''/'', target]));
                f = last (split CHR ''/'' (posix_join [''/'', target]));
                i = common_prefix_length src to;
                k = length src - i
            in (if k > 0 then concat (replicate k ''../'') else ''./'')
                 @ array_join ''/'' (drop i to @ [f])))"

text \<open>The example world: a network, a parser and manifests given as tables.\<close>

definition table :: "('a \<times> 'b) list \<Rightarrow> error \<Rightarrow> 'a \<Rightarrow> error + 'b" where
  "table t e k = (case map_of t k of None \<Rightarrow> Inl e | Some v \<Rightarrow> Inr v)"

definition example_env ::
    "(string \<times> response) list \<Rightarrow> (string \<times> program) list \<Rightarrow> (string \<times> manifest) list
       \<Rightarrow> (string \<times> string option) list \<Rightarrow> disk env" where
  "example_env network programs manifests versions =
     \<lparr>join = posix_join, dirname = posix_dirname, existsSync = disk_exists,
      readdir = disk_readdir, readFile = disk_readFile, writeFile = disk_writeFile,
      mkdir = disk_mkdir, fetch = table network (UnableToFetch ''network''),
      parseProgram = table programs ParseError, parseManifest = table manifests ParseError,
      parseVersion = table versions ParseError, satisfies = caret_satisfies,
      rsort = numbers_rsort, relativePath = relative_path,
      isEnoent = (\<lambda>e. e = FsError ''ENOENT'')\<rparr>"

definition empty_world :: "disk \<Rightarrow> disk world" where
  "empty_world d =
     \<lparr>fs = d, npmRequests = [], npmVersionCache = None, npmVersionRequests = [], fetched = []\<rparr>"


text \<open>A version service that knows one answer, \<open>8.0.0\<close> for \<open>d3\<close> at \<open>^8\<close>.\<close>

definition d3_env :: "disk env" where
  "d3_env =
     example_env
       [(''https://data.jsdelivr.com/v1/packages/npm/d3/resolved?specifier=^8'',
         \<lparr>response_ok = True, response_content_type = Some ''application/json'',
          response_body = ''{version}''\<rparr>)]
       [] [] [(''{version}'', Some ''8.0.0'')]"



text \<open>
  The module \<open>arquero@5.0.0\<close>, which imports \<open>/npm/apache-arrow@12/+esm\<close> and whose
  manifest declares \<open>apache-arrow\<close> at \<open>^11.0.0\<close>, with the world that serves it.
\<close>

definition arquero_source :: string where
  "arquero_source =
     ''import {x} from '' @ [CHR 0x22] @ ''/npm/apache-arrow@12/+esm'' @ [CHR 0x22] @ '';''"

definition arquero_manifest :: manifest where
  "arquero_manifest =
     \<lparr>dependencies = Some [(''apache-arrow'', ''^11.0.0'')], devDependencies = None,
      peerDependencies = None\<rparr>"

definition arquero_env :: "disk env" where
  "arquero_env =
     example_env
       [(''https://cdn.jsdelivr.net/npm/arquero@5.0.0/+esm'',
         \<lparr>response_ok = True,
          response_content_type = Some ''application/javascript; charset=utf-8'',
          response_body = arquero_source\<rparr>),
        (''https://cdn.jsdelivr.net/npm/arquero@5.0.0/package.json'',
         \<lparr>response_ok = True, response_content_type = Some ''application/json'',
          response_body = ''{manifest}''\<rparr>),
        (''https://data.jsdelivr.com/v1/packages/npm/apache-arrow/resolved?specifier=latest'',
         \<lparr>response_ok = True, response_content_type = Some ''application/json'',
          response_body = ''{version}''\<rparr>)]
       [(arquero_source, [ImportDeclaration (Some (StringLiteral 16 43 ''/npm/apache-arrow@12/+esm''))])]
       [(''{manifest}'', arquero_manifest)]
       [(''{version}'', Some ''13.0.0'')]"

section \<open>What rewriting is to compute\<close>










text \<open>For the proofs: no specifier of a set of dependencies names the package \<open>name\<close>.\<close>

definition no_self :: "string \<Rightarrow> string list \<Rightarrow> bool" where
  "no_self name deps =
     list_all (\<lambda>d. case parseNpmSpecifier (drop (length ''/npm/'') d) of
                      Inl _ \<Rightarrow> False | Inr dep \<Rightarrow> npm_name dep \<noteq> name) deps"

section \<open>Properties of the string operations\<close>

lemma split_not_Nil: "split c s \<noteq> []"
  by (induction s) (auto split: list.splits)

lemma array_join_Cons_head: "array_join sep ((x # p) # ps) = x # array_join sep (p # ps)"
  by (cases ps) simp_all

lemma array_join_Cons: "ps \<noteq> [] \<Longrightarrow> array_join sep (p # ps) = p @ sep @ array_join sep ps"
  by (cases ps) simp_all

lemma array_join_split: "array_join [c] (split c s) = s"
proof (induction s)
  case Nil
  show ?case by simp
next
  case (Cons x xs)
  obtain p ps where sp: "split c xs = p # ps"
    using split_not_Nil [of c xs] by (cases "split c xs") auto
  show ?case
  proof (cases "x = c")
    case True
    with Cons sp show ?thesis by simp
  next
    case False
    with Cons sp show ?thesis by (simp add: array_join_Cons_head)
  qed
qed

lemma indexOf_at_found:
  "indexOf_at c from i s = r \<Longrightarrow> r \<noteq> -1 \<Longrightarrow>
     \<exists>k. r = int k \<and> i \<le> k \<and> from \<le> k \<and> k - i < length s \<and> s ! (k - i) = c"
proof (induction s arbitrary: i)
  case Nil
  then show ?case by simp
next
  case (Cons x xs)
  show ?case
  proof (cases "from \<le> i \<and> x = c")
    case True
    with Cons.prems show ?thesis by auto
  next
    case False
    with Cons.prems have "indexOf_at c from (Suc i) xs = r" by auto
    from Cons.IH [OF this Cons.prems(2)] obtain k where
      k: "r = int k" "Suc i \<le> k" "from \<le> k" "k - Suc i < length xs" "xs ! (k - Suc i) = c"
      by blast
    then have "(x # xs) ! (k - i) = c" by (simp add: nth_Cons')
    with k show ?thesis by (intro exI [of _ k]) auto
  qed
qed

lemma indexOf_pos_split:
  assumes "indexOf c 1 s > 0"
  shows "take (nat (indexOf c 1 s)) s @ c # drop (nat (indexOf c 1 s) + 1) s = s"
proof -
  from assms have "indexOf_at c 1 0 s \<noteq> -1" by (simp add: indexOf_def)
  from indexOf_at_found [OF refl this] obtain k where
    k: "indexOf_at c 1 0 s = int k" "k < length s" "s ! k = c" by auto
  then have "take k s @ c # drop (Suc k) s = s"
    by (metis id_take_nth_drop)
  with k show ?thesis by (simp add: indexOf_def)
qed

text \<open>
  C2 (as amended): when the parse yields a non-empty range and a non-empty path, formatting
  the parse gives the specifier text back. An empty range or path is present in the parse
  but falsy in \<open>formatNpmSpecifier\<close>, which then leaves its delimiter out.
\<close>

theorem format_parse_nonempty:
  assumes "parseNpmSpecifier specifier = Inr s"
    and "npm_range s = Some r" and "r \<noteq> []"
    and "npm_path s = Some p" and "p \<noteq> []"
  shows "formatNpmSpecifier s = specifier"
proof -
  obtain a ps where sp: "split CHR ''/'' specifier = a # ps"
    using split_not_Nil [of "CHR ''/''" specifier] by (cases "split CHR ''/'' specifier") auto
  have whole: "array_join ''/'' (a # ps) = specifier"
    using array_join_split [of "CHR ''/''" specifier] sp by simp
  show ?thesis
  proof (cases "startsWith specifier ''@''")
    case False
    let ?k = "indexOf CHR ''@'' 1 a"
    from assms(1) False sp have s:
      "s = \<lparr>npm_name = (if ?k > 0 then take (nat ?k) a else a),
            npm_range = (if ?k > 0 then Some (drop (nat ?k + 1) a) else None),
            npm_path = (if length ps > 0 then Some (array_join ''/'' ps) else None)\<rparr>"
      by (auto simp: parseNpmSpecifier_def shift_def Let_def)
    with assms have pos: "?k > 0" and ne: "ps \<noteq> []"
      by (auto split: if_splits)
    from s pos ne assms have "formatNpmSpecifier s
        = take (nat ?k) a @ ''@'' @ drop (nat ?k + 1) a @ ''/'' @ array_join ''/'' ps"
      by (auto simp: formatNpmSpecifier_def truthy_def template_def)
    also have "\<dots> = a @ ''/'' @ array_join ''/'' ps"
      using indexOf_pos_split [OF pos] by (metis append.assoc append_Cons append_Nil)
    also have "\<dots> = specifier" using whole ne by (simp add: array_join_Cons)
    finally show ?thesis .
  next
    case True
    show ?thesis
    proof (cases ps)
      case Nil
      with assms(1) True sp have "npm_path s = None"
        by (auto simp: parseNpmSpecifier_def shift_def Let_def)
      with assms show ?thesis by simp
    next
      case (Cons b rest)
      let ?nr = "a @ ''/'' @ b"
      let ?k = "indexOf CHR ''@'' 1 ?nr"
      from assms(1) True sp Cons have s:
        "s = \<lparr>npm_name = (if ?k > 0 then take (nat ?k) ?nr else ?nr),
              npm_range = (if ?k > 0 then Some (drop (nat ?k + 1) ?nr) else None),
              npm_path = (if length rest > 0 then Some (array_join ''/'' rest) else None)\<rparr>"
        by (auto simp: parseNpmSpecifier_def shift_def Let_def undefined_as_empty_def)
      with assms have pos: "?k > 0" and ne: "rest \<noteq> []"
        by (auto split: if_splits)
      from s pos ne assms have "formatNpmSpecifier s
          = take (nat ?k) ?nr @ ''@'' @ drop (nat ?k + 1) ?nr @ ''/'' @ array_join ''/'' rest"
        by (auto simp: formatNpmSpecifier_def truthy_def template_def)
      also have "\<dots> = ?nr @ ''/'' @ array_join ''/'' rest"
        using indexOf_pos_split [OF pos] by (metis append.assoc append_Cons append_Nil)
      also have "\<dots> = specifier" using whole ne Cons by (simp add: array_join_Cons)
      finally show ?thesis .
    qed
  qed
qed

theorem format_parse_nonempty_witness:
  "parseNpmSpecifier ''@scope/pkg@^1.2.3/dist/x.js''
     = Inr \<lparr>npm_name = ''@scope/pkg'', npm_range = Some ''^1.2.3'', npm_path = Some ''dist/x.js''\<rparr>
   \<and> formatNpmSpecifier \<lparr>npm_name = ''@scope/pkg'', npm_range = Some ''^1.2.3'', npm_path = Some ''dist/x.js''\<rparr>
     = ''@scope/pkg@^1.2.3/dist/x.js''"
proof -
  have p: "parseNpmSpecifier ''@scope/pkg@^1.2.3/dist/x.js''
     = Inr \<lparr>npm_name = ''@scope/pkg'', npm_range = Some ''^1.2.3'', npm_path = Some ''dist/x.js''\<rparr>"
    by (simp add: parseNpmSpecifier_def startsWith_def shift_def indexOf_def
        undefined_as_empty_def Let_def)
  show ?thesis
    using p format_parse_nonempty [OF p, of "''^1.2.3''" "''dist/x.js''"] by simp
qed

text \<open>
  C2 (as stated) fails: \<open>foo@/bar\<close> parses to name \<open>foo\<close>, an empty range and path
  \<open>bar\<close>, all three present, and formats to \<open>foo/bar\<close>.
\<close>

theorem format_parse_empty_range_counterexample:
  "parseNpmSpecifier ''foo@/bar'' = Inr \<lparr>npm_name = ''foo'', npm_range = Some '''', npm_path = Some ''bar''\<rparr>
   \<and> formatNpmSpecifier \<lparr>npm_name = ''foo'', npm_range = Some '''', npm_path = Some ''bar''\<rparr> = ''foo/bar''
   \<and> ''foo/bar'' \<noteq> ''foo@/bar''"
  by (simp add: parseNpmSpecifier_def formatNpmSpecifier_def startsWith_def shift_def
      indexOf_def truthy_def template_def Let_def)

lemma split_no_separator: "c \<notin> set s \<Longrightarrow> split c s = [s]"
  by (induction s) auto

lemma indexOf_at_absent: "c \<notin> set s \<Longrightarrow> indexOf_at c from i s = -1"
  by (induction s arbitrary: i) auto

lemma startsWith_absent: "c \<notin> set s \<Longrightarrow> \<not> startsWith s [c]"
  by (cases s) (auto simp: startsWith_def)

lemma parseNpmSpecifier_returns: "\<exists>s. parseNpmSpecifier specifier = Inr s"
proof -
  obtain a ps where sp: "split CHR ''/'' specifier = a # ps"
    using split_not_Nil [of "CHR ''/''" specifier] by (cases "split CHR ''/'' specifier") auto
  then show ?thesis
    by (auto simp: parseNpmSpecifier_def shift_def Let_def split: prod.splits list.splits)
qed

text \<open>
  C9 (as amended): \<open>parseNpmSpecifier\<close> returns a specifier for every string (the
  \<open>TypeError\<close> branch is never taken), and a string with neither \<open>/\<close> nor \<open>@\<close> comes
  back as the name, with range and path absent.
\<close>

theorem parseNpmSpecifier_total_plain:
  "(\<exists>s. parseNpmSpecifier specifier = Inr s)
   \<and> (CHR ''/'' \<notin> set specifier \<and> CHR ''@'' \<notin> set specifier \<longrightarrow>
        parseNpmSpecifier specifier = Inr \<lparr>npm_name = specifier, npm_range = None, npm_path = None\<rparr>)"
proof
  show "\<exists>s. parseNpmSpecifier specifier = Inr s"
    by (rule parseNpmSpecifier_returns)
next
  show "CHR ''/'' \<notin> set specifier \<and> CHR ''@'' \<notin> set specifier \<longrightarrow>
        parseNpmSpecifier specifier = Inr \<lparr>npm_name = specifier, npm_range = None, npm_path = None\<rparr>"
    by (auto simp: parseNpmSpecifier_def shift_def Let_def indexOf_def
        split_no_separator indexOf_at_absent startsWith_absent)
qed

theorem parseNpmSpecifier_total_plain_witness:
  "CHR ''/'' \<notin> set ''lodash'' \<and> CHR ''@'' \<notin> set ''lodash''
   \<and> parseNpmSpecifier ''lodash'' = Inr \<lparr>npm_name = ''lodash'', npm_range = None, npm_path = None\<rparr>"
  using parseNpmSpecifier_total_plain [of "''lodash''"] by simp

text \<open>
  C9 (as stated) fails: a scope with no package name, \<open>@foo\<close>, is malformed, and its
  parse has the name \<open>@foo/\<close>, not the input text; a specifier with an empty name,
  \<open>/x\<close>, is malformed, and its parse has the empty name and the path \<open>x\<close>.
\<close>

theorem parseNpmSpecifier_scope_only_counterexample:
  "parseNpmSpecifier ''@foo'' = Inr \<lparr>npm_name = ''@foo/'', npm_range = None, npm_path = None\<rparr>
   \<and> ''@foo/'' \<noteq> ''@foo''
   \<and> parseNpmSpecifier ''/x'' = Inr \<lparr>npm_name = [], npm_range = None, npm_path = Some ''x''\<rparr>"
  by (simp add: parseNpmSpecifier_def startsWith_def shift_def indexOf_def
      undefined_as_empty_def Let_def)

section \<open>Rewriting replaces the specifier literals and nothing else\<close>





















section \<open>A file in the cache is returned at once\<close>

lemma populateNpmCache_body_cached:
  assumes "startsWith path ''/_npm/''"
    and "existsSync env (fs w) (join env [root, ''.observablehq'', ''cache'', path])"
  shows "populateNpmCache_body populate env root path w
           = (Returned (join env [root, ''.observablehq'', ''cache'', path]), w)"
  using assms by (simp add: populateNpmCache_body_def)

text \<open>
  C5: for a path that starts with \<open>/_npm/\<close> and whose file is on the disk,
  \<open>populateNpmCache\<close> returns the path of that file and leaves the world as it was: no
  request goes out, and a second call returns the same again. This holds for every number
  of nested calls allowed.
\<close>

theorem populateNpmCache_cached:
  assumes "startsWith path ''/_npm/''"
    and "existsSync env (fs w) (join env [root, ''.observablehq'', ''cache'', path])"
  shows "populateNpmCache n env root path w
           = (Returned (join env [root, ''.observablehq'', ''cache'', path]), w)
         \<and> fetched (snd (populateNpmCache n env root path w)) = fetched w
         \<and> populateNpmCache n env root path (snd (populateNpmCache n env root path w))
           = populateNpmCache n env root path w"
proof -
  have "populateNpmCache n env root path w
           = (Returned (join env [root, ''.observablehq'', ''cache'', path]), w)"
    using assms by (cases n) (simp_all add: populateNpmCache_body_cached)
  then show ?thesis by simp
qed

theorem populateNpmCache_cached_witness:
  "startsWith ''/_npm/d3@7.8.5/+esm.js'' ''/_npm/''
   \<and> existsSync (example_env [] [] [] [])
         (fs (empty_world [(''/proj/.observablehq/cache/_npm/d3@7.8.5/+esm.js'', Some ''export {};'')]))
         (join (example_env [] [] [] []) [''/proj'', ''.observablehq'', ''cache'', ''/_npm/d3@7.8.5/+esm.js''])
   \<and> populateNpmCache 0 (example_env [] [] [] []) ''/proj'' ''/_npm/d3@7.8.5/+esm.js''
         (empty_world [(''/proj/.observablehq/cache/_npm/d3@7.8.5/+esm.js'', Some ''export {};'')])
       = (Returned ''/proj/.observablehq/cache/_npm/d3@7.8.5/+esm.js'',
          empty_world [(''/proj/.observablehq/cache/_npm/d3@7.8.5/+esm.js'', Some ''export {};'')])"
proof -
  have j: "join (example_env [] [] [] []) [''/proj'', ''.observablehq'', ''cache'', ''/_npm/d3@7.8.5/+esm.js'']
        = ''/proj/.observablehq/cache/_npm/d3@7.8.5/+esm.js''"
    by (simp add: example_env_def posix_join_def posix_normalize_def startsWith_def endsWith_def)
  have s: "startsWith ''/_npm/d3@7.8.5/+esm.js'' ''/_npm/''"
    by (simp add: startsWith_def)
  have e: "existsSync (example_env [] [] [] [])
         (fs (empty_world [(''/proj/.observablehq/cache/_npm/d3@7.8.5/+esm.js'', Some ''export {};'')]))
         (join (example_env [] [] [] []) [''/proj'', ''.observablehq'', ''cache'', ''/_npm/d3@7.8.5/+esm.js''])"
    unfolding j by (simp add: example_env_def empty_world_def disk_exists_def)
  show ?thesis
    using s e populateNpmCache_cached [OF s e, of 0] j by simp
qed

section \<open>A module is no dependency of itself\<close>

lemma no_self_set_add:
  "no_self name deps \<Longrightarrow> parseNpmSpecifier (drop (length ''/npm/'') v) = Inr dep
     \<Longrightarrow> npm_name dep \<noteq> name \<Longrightarrow> no_self name (set_add deps v)"
  by (auto simp: no_self_def set_add_def)

lemma findImportSource_no_self:
  "findImportSource env disk root name deps x = Inr deps' \<Longrightarrow> no_self name deps
     \<Longrightarrow> no_self name deps'"
  by (cases x)
     (auto simp: findImportSource_def no_self_set_add split: if_splits sum.splits)

lemma find_visit_no_self:
  "find_visit env disk root name deps n = Inr deps' \<Longrightarrow> no_self name deps
     \<Longrightarrow> no_self name deps'"
  by (cases n)
     (auto simp: findImport_def findImportMetaResolve_def
        split: option.splits list.splits if_splits dest: findImportSource_no_self)

lemma findDependencies_no_self:
  "findDependencies env disk root name program deps = Inr deps' \<Longrightarrow> no_self name deps
     \<Longrightarrow> no_self name deps'"
proof (induction program arbitrary: deps)
  case Nil
  then show ?case by simp
next
  case (Cons n ns)
  then show ?case
    by (auto split: sum.splits dest: find_visit_no_self)
qed

lemma findDependencies_returns:
  "\<exists>deps'. findDependencies env disk root name program deps = Inr deps'"
proof (induction program arbitrary: deps)
  case Nil
  show ?case by simp
next
  case (Cons n ns)
  have src: "\<And>x. \<exists>d. findImportSource env disk root name deps x = Inr d"
  proof -
    fix x
    show "\<exists>d. findImportSource env disk root name deps x = Inr d"
    proof (cases x)
      case OtherExpression
      then show ?thesis by (simp add: findImportSource_def)
    next
      case (StringLiteral s e v)
      obtain dep where "parseNpmSpecifier (drop (length ''/npm/'') v) = Inr dep"
        using parseNpmSpecifier_returns by blast
      with StringLiteral show ?thesis by (simp add: findImportSource_def)
    qed
  qed
  have "\<exists>d. find_visit env disk root name deps n = Inr d"
    using src by (cases n) (auto simp: findImport_def findImportMetaResolve_def
        split: option.splits list.splits)
  then obtain d where "find_visit env disk root name deps n = Inr d" by blast
  with Cons [of d] show ?case by simp
qed

text \<open>
  C8: in \<open>getDependencyResolver\<close>, the set of dependencies, which is what makes the manifest
  load and what is resolved, holds no specifier whose package name is the name of the module
  itself, the name parsed from the module's cache path.
\<close>

theorem dependencies_exclude_self:
  assumes "parseNpmSpecifier (resolveNpmSpecifier path) = Inr self"
    and "findDependencies env disk root (npm_name self) program [] = Inr deps"
    and "d \<in> set deps"
  shows "\<exists>dep. parseNpmSpecifier (drop (length ''/npm/'') d) = Inr dep
           \<and> npm_name dep \<noteq> npm_name self"
proof -
  have "no_self (npm_name self) deps"
    using findDependencies_no_self [OF assms(2)] by (simp add: no_self_def)
  with assms(3) have "case parseNpmSpecifier (drop (length ''/npm/'') d) of
      Inl _ \<Rightarrow> False | Inr dep \<Rightarrow> npm_name dep \<noteq> npm_name self"
    unfolding no_self_def list_all_iff by blast
  then show ?thesis
    by (cases "parseNpmSpecifier (drop (length ''/npm/'') d)") auto
qed

theorem dependencies_exclude_self_witness:
  "parseNpmSpecifier (resolveNpmSpecifier ''/_npm/mermaid@10.6.1/dist/mermaid.esm.min.mjs/+esm.js'')
     = Inr \<lparr>npm_name = ''mermaid'', npm_range = Some ''10.6.1'',
            npm_path = Some ''dist/mermaid.esm.min.mjs/+esm''\<rparr>
   \<and> findDependencies (example_env [] [] [] []) [] ''/proj'' ''mermaid''
         [ImportDeclaration (Some (StringLiteral 20 64 ''/npm/mermaid@10.6.1/dist/chunks/a.mjs/+esm'')),
          ImportDeclaration (Some (StringLiteral 80 100 ''/npm/d3@7.8.5/+esm''))] []
     = Inr [''/npm/d3@7.8.5/+esm'']
   \<and> ''/npm/d3@7.8.5/+esm'' \<in> set [''/npm/d3@7.8.5/+esm'']
   \<and> (\<exists>dep. parseNpmSpecifier (drop (length ''/npm/'') ''/npm/d3@7.8.5/+esm'') = Inr dep
           \<and> npm_name dep \<noteq> ''mermaid'')"
proof -
  have p: "parseNpmSpecifier (resolveNpmSpecifier ''/_npm/mermaid@10.6.1/dist/mermaid.esm.min.mjs/+esm.js'')
     = Inr \<lparr>npm_name = ''mermaid'', npm_range = Some ''10.6.1'',
            npm_path = Some ''dist/mermaid.esm.min.mjs/+esm''\<rparr>"
    by (simp add: resolveNpmSpecifier_def parseNpmSpecifier_def startsWith_def endsWith_def
        shift_def indexOf_def Let_def)
  have f: "findDependencies (example_env [] [] [] []) [] ''/proj''
         (npm_name \<lparr>npm_name = ''mermaid'', npm_range = Some ''10.6.1'',
            npm_path = Some ''dist/mermaid.esm.min.mjs/+esm''\<rparr>)
         [ImportDeclaration (Some (StringLiteral 20 64 ''/npm/mermaid@10.6.1/dist/chunks/a.mjs/+esm'')),
          ImportDeclaration (Some (StringLiteral 80 100 ''/npm/d3@7.8.5/+esm''))] []
     = Inr [''/npm/d3@7.8.5/+esm'']"
    by (simp add: findImport_def findImportSource_def parseNpmSpecifier_def startsWith_def
        shift_def indexOf_def Let_def set_add_def example_env_def disk_exists_def)
  have m: "''/npm/d3@7.8.5/+esm'' \<in> set [''/npm/d3@7.8.5/+esm'']" by simp
  show ?thesis
    using p f dependencies_exclude_self [OF p f m] by simp
qed

section \<open>Overrides come before the manifest\<close>



text \<open>
  The same scenario end to end, in the small world: populating \<open>arquero@5.0.0\<close> fetches
  the module and its manifest, and then asks the version service for \<open>apache-arrow\<close> at
  \<open>latest\<close>, not at \<open>^11.0.0\<close>.
\<close>

lemma arquero_resolves_latest:
  "populateNpmCache 1 arquero_env ''/proj'' ''/_npm/arquero@5.0.0/+esm.js'' (empty_world [])
     = (Returned ''/proj/.observablehq/cache/_npm/arquero@5.0.0/+esm.js'',
        \<lparr>fs = [(''/proj/.observablehq/cache/_npm/arquero@5.0.0/+esm.js'',
                 Some (''import {x} from '' @ [CHR 0x22] @ ''../apache-arrow@13.0.0/+esm.js''
                         @ [CHR 0x22] @ '';'')),
                (''/proj/.observablehq/cache/_npm/apache-arrow@13.0.0'', None),
                (''/proj/.observablehq/cache/_npm/arquero@5.0.0/package.json'', Some ''{manifest}''),
                (''/proj/.observablehq/cache/_npm/arquero@5.0.0'', None)],
         npmRequests = [],
         npmVersionCache = Some (Inr [(''apache-arrow'', [Some ''13.0.0''])]),
         npmVersionRequests = [],
         fetched = [''https://cdn.jsdelivr.net/npm/arquero@5.0.0/+esm'',
                    ''https://cdn.jsdelivr.net/npm/arquero@5.0.0/package.json'',
                    ''https://data.jsdelivr.com/v1/packages/npm/apache-arrow/resolved?specifier=latest'']\<rparr>)"
  by code_simp

section \<open>The three tiers of version resolution\<close>

lemma fetchNpmVersion_fetched:
  "fetched (snd (fetchNpmVersion env root specifier href cache versions w)) = fetched w @ [href]"
  by (simp add: fetchNpmVersion_def Let_def split: sum.splits option.splits)














section \<open>A missing cache directory\<close>

lemma initializeNpmVersionCache_missing:
  "readdir env disk (join env [root, ''.observablehq'', ''cache'', ''_npm'']) = Inl e \<Longrightarrow>
     initializeNpmVersionCache env root disk = (if isEnoent env e then Inr [] else Inl e)"
  by (simp add: initializeNpmVersionCache_def Let_def)

lemma initializeNpmVersionCache_rethrows:
  "readdir env disk (join env [root, ''.observablehq'', ''cache'', ''_npm'']) = Inr entries \<Longrightarrow>
   read_entries env disk (join env [root, ''.observablehq'', ''cache'', ''_npm'']) entries []
     = (Some e, cache) \<Longrightarrow> \<not> isEnoent env e \<Longrightarrow>
     initializeNpmVersionCache env root disk = Inl e"
  by (simp add: initializeNpmVersionCache_def Let_def)

lemma cachedVersion_empty: "cachedVersion env (map_of [] name) rng = None"
  by (simp add: cachedVersion_def)

lemma resolveNpmVersion_fresh:
  assumes "loadNpmVersionCache env root w = Inr []"
    and "\<not> exact_range (npm_range specifier)"
    and "resolved_href (npm_name specifier) (npm_range specifier) \<notin> set (npmVersionRequests w)"
  shows "fst (resolveNpmVersion env root specifier w)
           = fst (fetchNpmVersion env root specifier
                    (resolved_href (npm_name specifier) (npm_range specifier)) [] None
                    (w\<lparr>npmVersionCache := Some (Inr []),
                       npmVersionRequests :=
                         resolved_href (npm_name specifier) (npm_range specifier) # npmVersionRequests w\<rparr>))
         \<and> fetched (snd (resolveNpmVersion env root specifier w))
           = fetched w @ [resolved_href (npm_name specifier) (npm_range specifier)]"
  using assms
  by (simp add: resolveNpmVersion_def Let_def split_beta cachedVersion_def fetchNpmVersion_fetched)

text \<open>
  C10: when reading the cache directory fails with an error that \<open>isEnoent\<close> accepts,
  \<open>initializeNpmVersionCache\<close> returns the empty index, and a resolution on such a fresh
  project (index not yet read, range not exact, no lookup pending) goes on to the remote
  tier: its outcome is that of the request to the version service, which is sent. An error
  that \<open>isEnoent\<close> rejects is raised again, whether it comes from reading the cache
  directory or from reading the directory of a scope inside it.
\<close>

theorem missing_cache_directory:
  "(readdir env (fs w) (join env [root, ''.observablehq'', ''cache'', ''_npm'']) = Inl e
      \<and> isEnoent env e \<longrightarrow>
      initializeNpmVersionCache env root (fs w) = Inr []
      \<and> (npmVersionCache w = None \<and> \<not> exact_range (npm_range specifier)
           \<and> resolved_href (npm_name specifier) (npm_range specifier) \<notin> set (npmVersionRequests w) \<longrightarrow>
         fst (resolveNpmVersion env root specifier w)
           = fst (fetchNpmVersion env root specifier
                    (resolved_href (npm_name specifier) (npm_range specifier)) [] None
                    (w\<lparr>npmVersionCache := Some (Inr []),
                       npmVersionRequests :=
                         resolved_href (npm_name specifier) (npm_range specifier) # npmVersionRequests w\<rparr>))
         \<and> fetched (snd (resolveNpmVersion env root specifier w))
           = fetched w @ [resolved_href (npm_name specifier) (npm_range specifier)]))
   \<and> (readdir env (fs w) (join env [root, ''.observablehq'', ''cache'', ''_npm'']) = Inl e
      \<and> \<not> isEnoent env e \<longrightarrow>
      initializeNpmVersionCache env root (fs w) = Inl e)
   \<and> (readdir env (fs w) (join env [root, ''.observablehq'', ''cache'', ''_npm'']) = Inr entries
      \<and> read_entries env (fs w) (join env [root, ''.observablehq'', ''cache'', ''_npm'']) entries []
          = (Some e, cache)
      \<and> \<not> isEnoent env e \<longrightarrow>
      initializeNpmVersionCache env root (fs w) = Inl e)"
proof (intro conjI impI)
  assume a: "readdir env (fs w) (join env [root, ''.observablehq'', ''cache'', ''_npm'']) = Inl e
      \<and> isEnoent env e"
  then show i: "initializeNpmVersionCache env root (fs w) = Inr []"
    by (simp add: initializeNpmVersionCache_missing)
  assume b: "npmVersionCache w = None \<and> \<not> exact_range (npm_range specifier)
      \<and> resolved_href (npm_name specifier) (npm_range specifier) \<notin> set (npmVersionRequests w)"
  with i have l: "loadNpmVersionCache env root w = Inr []"
    by (simp add: loadNpmVersionCache_def)
  from resolveNpmVersion_fresh [OF l] b
  show "fst (resolveNpmVersion env root specifier w)
           = fst (fetchNpmVersion env root specifier
                    (resolved_href (npm_name specifier) (npm_range specifier)) [] None
                    (w\<lparr>npmVersionCache := Some (Inr []),
                       npmVersionRequests :=
                         resolved_href (npm_name specifier) (npm_range specifier) # npmVersionRequests w\<rparr>))"
    and "fetched (snd (resolveNpmVersion env root specifier w))
           = fetched w @ [resolved_href (npm_name specifier) (npm_range specifier)]"
    by blast+
next
  assume "readdir env (fs w) (join env [root, ''.observablehq'', ''cache'', ''_npm'']) = Inl e
      \<and> \<not> isEnoent env e"
  then show "initializeNpmVersionCache env root (fs w) = Inl e"
    by (simp add: initializeNpmVersionCache_missing)
next
  assume "readdir env (fs w) (join env [root, ''.observablehq'', ''cache'', ''_npm'']) = Inr entries
      \<and> read_entries env (fs w) (join env [root, ''.observablehq'', ''cache'', ''_npm'']) entries []
          = (Some e, cache)
      \<and> \<not> isEnoent env e"
  then show "initializeNpmVersionCache env root (fs w) = Inl e"
    by (simp add: initializeNpmVersionCache_rethrows)
qed


theorem missing_cache_directory_witness:
  "readdir d3_env (fs (empty_world [])) (join d3_env [''/proj'', ''.observablehq'', ''cache'', ''_npm''])
     = Inl (FsError ''ENOENT'')
   \<and> isEnoent d3_env (FsError ''ENOENT'')
   \<and> initializeNpmVersionCache d3_env ''/proj'' (fs (empty_world [])) = Inr []
   \<and> fetched (snd (resolveNpmVersion d3_env ''/proj''
         \<lparr>npm_name = ''d3'', npm_range = Some ''^8'', npm_path = None\<rparr> (empty_world [])))
       = [''https://data.jsdelivr.com/v1/packages/npm/d3/resolved?specifier=^8'']
   \<and> \<not> isEnoent (d3_env\<lparr>readdir := \<lambda>_ _. Inl (FsError ''EACCES'')\<rparr>) (FsError ''EACCES'')
   \<and> initializeNpmVersionCache (d3_env\<lparr>readdir := \<lambda>_ _. Inl (FsError ''EACCES'')\<rparr>) ''/proj''
         (fs (empty_world []))
       = Inl (FsError ''EACCES'')
   \<and> read_entries
         (d3_env\<lparr>readdir := \<lambda>d p. if p = ''/proj/.observablehq/cache/_npm''
                                    then Inr [''d3@7.8.5'', ''@observablehq'']
                                    else Inl (FsError ''ENOTDIR'')\<rparr>)
         (fs (empty_world [])) ''/proj/.observablehq/cache/_npm'' [''d3@7.8.5'', ''@observablehq''] []
       = (Some (FsError ''ENOTDIR''), [(''d3'', [Some ''7.8.5''])])
   \<and> initializeNpmVersionCache
         (d3_env\<lparr>readdir := \<lambda>d p. if p = ''/proj/.observablehq/cache/_npm''
                                    then Inr [''d3@7.8.5'', ''@observablehq'']
                                    else Inl (FsError ''ENOTDIR'')\<rparr>)
         ''/proj'' (fs (empty_world []))
       = Inl (FsError ''ENOTDIR'')"
proof -
  let ?w = "empty_world []"
  let ?spec = "\<lparr>npm_name = ''d3'', npm_range = Some ''^8'', npm_path = None\<rparr>"
  let ?denied = "d3_env\<lparr>readdir := \<lambda>_ _. Inl (FsError ''EACCES'')\<rparr>"
  let ?broken = "d3_env\<lparr>readdir := \<lambda>d p. if p = ''/proj/.observablehq/cache/_npm''
                                    then Inr [''d3@7.8.5'', ''@observablehq'']
                                    else Inl (FsError ''ENOTDIR'')\<rparr>"
  have j: "join d3_env [''/proj'', ''.observablehq'', ''cache'', ''_npm'']
      = ''/proj/.observablehq/cache/_npm''"
    by code_simp
  have jd: "join ?denied [''/proj'', ''.observablehq'', ''cache'', ''_npm'']
      = ''/proj/.observablehq/cache/_npm''"
    and jb: "join ?broken [''/proj'', ''.observablehq'', ''cache'', ''_npm'']
      = ''/proj/.observablehq/cache/_npm''"
    using j by simp_all
  have r: "readdir d3_env (fs ?w) (join d3_env [''/proj'', ''.observablehq'', ''cache'', ''_npm''])
      = Inl (FsError ''ENOENT'')"
    by code_simp
  have e: "isEnoent d3_env (FsError ''ENOENT'')"
    by (simp add: d3_env_def example_env_def)
  have n: "npmVersionCache ?w = None" "npmVersionRequests ?w = []" "fetched ?w = []"
    by (simp_all add: empty_world_def)
  have x: "\<not> exact_range (npm_range ?spec)" by code_simp
  have h: "resolved_href (npm_name ?spec) (npm_range ?spec)
      = ''https://data.jsdelivr.com/v1/packages/npm/d3/resolved?specifier=^8''"
    by code_simp
  note t = missing_cache_directory [of d3_env ?w "''/proj''" "FsError ''ENOENT''" ?spec]
  have a1: "initializeNpmVersionCache d3_env ''/proj'' (fs ?w) = Inr []"
    using t r e by blast
  have a2: "fetched (snd (resolveNpmVersion d3_env ''/proj'' ?spec ?w))
       = [''https://data.jsdelivr.com/v1/packages/npm/d3/resolved?specifier=^8'']"
    using t r e n x h by simp
  have de: "\<not> isEnoent ?denied (FsError ''EACCES'')"
    by (simp add: d3_env_def example_env_def)
  have dr: "readdir ?denied (fs ?w) (join ?denied [''/proj'', ''.observablehq'', ''cache'', ''_npm''])
      = Inl (FsError ''EACCES'')"
    by simp
  have b1: "initializeNpmVersionCache ?denied ''/proj'' (fs ?w) = Inl (FsError ''EACCES'')"
    using missing_cache_directory [of ?denied ?w "''/proj''" "FsError ''EACCES''"] dr de by blast
  have be: "\<not> isEnoent ?broken (FsError ''ENOTDIR'')"
    by (simp add: d3_env_def example_env_def)
  have br: "readdir ?broken (fs ?w) (join ?broken [''/proj'', ''.observablehq'', ''cache'', ''_npm''])
      = Inr [''d3@7.8.5'', ''@observablehq'']"
    unfolding jb by simp
  have bs: "read_entries ?broken (fs ?w) ''/proj/.observablehq/cache/_npm''
         [''d3@7.8.5'', ''@observablehq''] []
       = (Some (FsError ''ENOTDIR''), [(''d3'', [Some ''7.8.5''])])"
    by code_simp
  have c1: "initializeNpmVersionCache ?broken ''/proj'' (fs ?w) = Inl (FsError ''ENOTDIR'')"
    using missing_cache_directory [of ?broken ?w "''/proj''" "FsError ''ENOTDIR''" _
        "[''d3@7.8.5'', ''@observablehq'']" "[(''d3'', [Some ''7.8.5''])]"] br bs be
    unfolding jb by blast
  from r e a1 a2 de b1 bs c1 show ?thesis by blast
qed

section \<open>The version in a cache path\<close>







section \<open>The registries of pending requests\<close>

text \<open>
  What one call sees of the two registries: a call that finds its key pending sends nothing
  and hands back the pending request, and a call that settles leaves no entry under its key,
  so that a later call starts again.
\<close>

lemma populateNpmCache_joins_pending:
  assumes "startsWith path ''/_npm/''"
    and "\<not> existsSync env (fs w) (join env [root, ''.observablehq'', ''cache'', path])"
    and "path \<in> set (npmRequests w)"
  shows "populateNpmCache n env root path w = (Awaiting path, w)"
  using assms by (cases n) (simp_all add: populateNpmCache_body_def)

lemma populateNpmCache_body_unregisters:
  assumes "path \<notin> set (npmRequests w)"
    and "populateNpmCache_body populate env root path w = (r, w')" and "settled r"
  shows "path \<notin> set (npmRequests w')"
  using assms
  by (auto simp: populateNpmCache_body_def Let_def settled_def split: if_splits prod.splits)

lemma populateNpmCache_unregisters:
  assumes "path \<notin> set (npmRequests w)"
    and "populateNpmCache n env root path w = (r, w')" and "settled r"
  shows "path \<notin> set (npmRequests w')"
  using assms by (cases n) (auto dest: populateNpmCache_body_unregisters)

lemma resolveNpmVersion_unregisters:
  assumes "resolved_href (npm_name specifier) (npm_range specifier) \<notin> set (npmVersionRequests w)"
    and "resolveNpmVersion env root specifier w = (r, w')" and "settled r"
  shows "resolved_href (npm_name specifier) (npm_range specifier) \<notin> set (npmVersionRequests w')"
  using assms
  by (auto simp: resolveNpmVersion_def Let_def settled_def
      split: if_splits prod.splits sum.splits option.splits)

end
